theory Spec2Isabelle
  imports Complex_Main "HOL-Library.Multiset" "HOL-Library.Sublist"
begin

section \<open>Python strings\<close>

text \<open>
  A Python \<open>str\<close> is modelled as a HOL \<open>string\<close>, each \<open>char\<close> standing for one code
  point below 256. On that range \<open>str.lower\<close>, \<open>str.strip\<close>, \<open>str.split\<close>, the
  operator \<open>in\<close>, \<open>len\<close> and slicing are the functions below. Python floats are
  modelled as reals: rounding is not part of the model.
\<close>

definition is_space :: "char \<Rightarrow> bool" where
  "is_space c = (of_char c \<in> set [9, 10, 11, 12, 13, 28, 29, 30, 31, 32, 133, 160 :: nat])"

definition lower_char :: "char \<Rightarrow> char" where
  "lower_char c =
     (let n = (of_char c :: nat)
      in if (65 \<le> n \<and> n \<le> 90) \<or> (192 \<le> n \<and> n \<le> 222 \<and> n \<noteq> 215)
         then char_of (n + 32) else c)"

definition lower :: "string \<Rightarrow> string" where
  "lower s = map lower_char s"

definition strip :: "string \<Rightarrow> string" where
  "strip s = rev (dropWhile is_space (rev (dropWhile is_space s)))"

text \<open>\<open>s.split(c)\<close>: the empty string gives one empty segment, and a trailing separator
  gives a trailing empty segment.\<close>

fun split_on :: "char \<Rightarrow> string \<Rightarrow> string list" where
  "split_on c [] = [[]]"
| "split_on c (x # xs) =
     (if x = c then [] # split_on c xs
      else (case split_on c xs of
              [] \<Rightarrow> [[x]]
            | s # ss \<Rightarrow> (x # s) # ss))"

text \<open>\<open>contains text keyword\<close> is Python's \<open>keyword in text\<close>.\<close>

fun contains :: "string \<Rightarrow> string \<Rightarrow> bool" where
  "contains [] k = (k = [])"
| "contains (x # xs) k = (prefix k (x # xs) \<or> contains xs k)"

text \<open>\<open>sep.join(xs)\<close>.\<close>

fun join :: "string \<Rightarrow> string list \<Rightarrow> string" where
  "join sep [] = []"
| "join sep [x] = x"
| "join sep (x # y # ys) = x @ sep @ join sep (y # ys)"

text \<open>\<open>str(n)\<close> for a non-negative integer.\<close>

definition digit_char :: "nat \<Rightarrow> char" where
  "digit_char d = char_of (48 + d)"

fun str_nat :: "nat \<Rightarrow> string" where
  "str_nat n = (if n < 10 then [digit_char n] else str_nat (n div 10) @ [digit_char (n mod 10)])"

declare str_nat.simps [simp del]

section \<open>Exceptions\<close>

datatype error = ValueError | ZeroDivisionError | IndexError

definition and_then :: "error + 'a \<Rightarrow> ('a \<Rightarrow> error + 'b) \<Rightarrow> error + 'b" where
  "and_then r f = (case r of Inl e \<Rightarrow> Inl e | Inr x \<Rightarrow> f x)"

text \<open>\<open>max(xs, key=key)\<close>: raises on an empty list, keeps the first of several maxima.\<close>

definition py_max :: "('a \<Rightarrow> nat) \<Rightarrow> 'a list \<Rightarrow> error + 'a" where
  "py_max key xs =
     (case xs of
        [] \<Rightarrow> Inl ValueError
      | x # rest \<Rightarrow> Inr (foldl (\<lambda>best y. if key best < key y then y else best) x rest))"

text \<open>\<open>xs[0]\<close> and \<open>xs[-1]\<close>.\<close>

definition py_first :: "'a list \<Rightarrow> error + 'a" where
  "py_first xs = (case xs of [] \<Rightarrow> Inl IndexError | x # _ \<Rightarrow> Inr x)"

definition py_last :: "'a list \<Rightarrow> error + 'a" where
  "py_last xs = (if xs = [] then Inl IndexError else Inr (last xs))"

text \<open>\<open>a / b\<close> on two integers.\<close>

definition py_true_div :: "nat \<Rightarrow> nat \<Rightarrow> error + real" where
  "py_true_div a b = (if b = 0 then Inl ZeroDivisionError else Inr (real a / real b))"

section \<open>Reviews and the analyzer's collaborators\<close>

text \<open>The dictionary built in \<open>fetch_reviews_selenium\<close>, with its three keys.\<close>

record review =
  text_of :: string
  rating :: real
  sentiment :: string

text \<open>One \<open>div[data-hook="review"]\<close> element: its body text and its parsed star rating,
  \<open>None\<close> where looking it up or parsing it raises.\<close>

record review_element =
  review_body :: "string option"
  star_rating :: "real option"

text \<open>
  What \<open>AmazonReviewAnalyzer\<close> calls outside this file. \<open>polarity\<close> is
  \<open>TextBlob(text).sentiment.polarity\<close>; \<open>urlparse_netloc\<close> is
  \<open>urllib.parse.urlparse(url).netloc\<close>; \<open>page_elements\<close> is the browser loading a page
  URL and listing its review elements; \<open>title_element\<close> is the browser loading the product
  page and reading \<open>productTitle\<close>; \<open>format_1f\<close> is the format \<open>:.1f\<close>. \<open>None\<close> is
  a call that raises.
\<close>

record analyzer =
  polarity :: "string \<Rightarrow> real"
  urlparse_netloc :: "string \<Rightarrow> string option"
  page_elements :: "string \<Rightarrow> review_element list option"
  title_element :: "string \<Rightarrow> string option"
  format_1f :: "real \<Rightarrow> string"

section \<open>clean_url, get_review_url, analyze_sentiment\<close>

definition is_asin_char :: "char \<Rightarrow> bool" where
  "is_asin_char c =
     (let n = (of_char c :: nat) in (65 \<le> n \<and> n \<le> 90) \<or> (48 \<le> n \<and> n \<le> 57))"

text \<open>A match of \<open>marker([A-Z0-9]{10})\<close> at the start of \<open>s\<close>, and \<open>re.search\<close> for it:
  the leftmost match, group 1.\<close>

definition match_asin_at :: "string \<Rightarrow> string \<Rightarrow> string option" where
  "match_asin_at marker s =
     (let rest = drop (length marker) s
      in if prefix marker s \<and> 10 \<le> length rest \<and> list_all is_asin_char (take 10 rest)
         then Some (take 10 rest) else None)"

fun re_search_asin :: "string \<Rightarrow> string \<Rightarrow> string option" where
  "re_search_asin marker [] = match_asin_at marker []"
| "re_search_asin marker (c # cs) =
     (case match_asin_at marker (c # cs) of
        Some a \<Rightarrow> Some a
      | None \<Rightarrow> re_search_asin marker cs)"

definition clean_url :: "analyzer \<Rightarrow> string \<Rightarrow> error + (string \<times> string)" where
  "clean_url self url =
     (case urlparse_netloc self url of
        None \<Rightarrow> Inl ValueError
      | Some domain \<Rightarrow>
          (case (case re_search_asin ''/dp/'' url of
                   None \<Rightarrow> re_search_asin ''/product/'' url
                 | Some a \<Rightarrow> Some a) of
             None \<Rightarrow> Inl ValueError
           | Some asin \<Rightarrow> Inr (domain, asin)))"

definition get_review_url :: "string \<Rightarrow> string \<Rightarrow> string" where
  "get_review_url domain asin = ''https://'' @ domain @ ''/product-reviews/'' @ asin @ ''/''"

definition analyze_sentiment :: "analyzer \<Rightarrow> string \<Rightarrow> string" where
  "analyze_sentiment self text =
     (let p = polarity self text
      in if p > 0.1 then ''Positive''
         else if p < - 0.1 then ''Negative''
         else ''Neutral'')"

section \<open>fetch_reviews_selenium\<close>

text \<open>The loop over one page's elements: an element that fails to parse is skipped.\<close>

fun parse_elements :: "analyzer \<Rightarrow> review_element list \<Rightarrow> review list \<Rightarrow> review list" where
  "parse_elements self [] reviews = reviews"
| "parse_elements self (el # els) reviews =
     (case (review_body el, star_rating el) of
        (Some b, Some r) \<Rightarrow>
          parse_elements self els
            (reviews @ [\<lparr>text_of = strip b, rating = r,
                         sentiment = analyze_sentiment self (strip b)\<rparr>])
      | _ \<Rightarrow> parse_elements self els reviews)"

text \<open>The loop over pages \<open>page, page + 1, ...\<close> with \<open>left\<close> pages to go: the first
  page that raises ends the loop, and what was collected is kept.\<close>

fun fetch_pages :: "analyzer \<Rightarrow> string \<Rightarrow> nat \<Rightarrow> nat \<Rightarrow> review list \<Rightarrow> review list" where
  "fetch_pages self review_url page 0 reviews = reviews"
| "fetch_pages self review_url page (Suc left) reviews =
     (case page_elements self (review_url @ ''?pageNumber='' @ str_nat page) of
        None \<Rightarrow> reviews
      | Some els \<Rightarrow>
          fetch_pages self review_url (Suc page) left (parse_elements self els reviews))"

definition fetch_reviews_selenium :: "analyzer \<Rightarrow> string \<Rightarrow> nat \<Rightarrow> review list" where
  "fetch_reviews_selenium self url num_pages =
     (case clean_url self url of
        Inl e \<Rightarrow> []
      | Inr (domain, asin) \<Rightarrow> fetch_pages self (get_review_url domain asin) 1 num_pages [])"

section \<open>extract_themes\<close>

definition common_aspects :: "(string \<times> string list) list" where
  "common_aspects =
     [(''quality'', [''quality'', ''build'', ''material'', ''durability'', ''construction'']),
      (''value'', [''price'', ''value'', ''worth'', ''cost'', ''expensive'', ''cheap'']),
      (''performance'', [''performance'', ''speed'', ''fast'', ''slow'', ''efficient'']),
      (''features'', [''feature'', ''functionality'', ''options'', ''capabilities'']),
      (''design'', [''design'', ''look'', ''aesthetic'', ''style'', ''appearance'']),
      (''usability'', [''easy'', ''simple'', ''intuitive'', ''user-friendly'', ''difficult'']),
      (''reliability'', [''reliable'', ''consistent'', ''stable'', ''issues'', ''problems'']),
      (''support'', [''support'', ''customer service'', ''warranty'', ''help''])]"

text \<open>\<open>any(keyword in s for keyword in keywords)\<close>.\<close>

definition any_keyword :: "string list \<Rightarrow> string \<Rightarrow> bool" where
  "any_keyword keywords s = list_ex (\<lambda>keyword. contains s keyword) keywords"

text \<open>The \<open>defaultdict(list)\<close>, as an association list in insertion order (the order
  \<open>items()\<close> and \<open>keys()\<close> iterate in). \<open>append_theme\<close> is \<open>themes[aspect].append(x)\<close>.\<close>

type_synonym themes = "(string \<times> string list) list"

fun append_theme :: "themes \<Rightarrow> string \<Rightarrow> string \<Rightarrow> themes" where
  "append_theme [] aspect x = [(aspect, [x])]"
| "append_theme ((k, v) # rest) aspect x =
     (if k = aspect then (k, v @ [x]) # rest else (k, v) # append_theme rest aspect x)"

text \<open>The condition of the comprehension that builds \<open>relevant_sentences\<close>, and the
  comprehension.\<close>

definition is_relevant :: "string list \<Rightarrow> string \<Rightarrow> bool" where
  "is_relevant keywords s = (any_keyword keywords s \<and> strip s \<noteq> [])"

definition relevant_sentences :: "string list \<Rightarrow> string \<Rightarrow> string list" where
  "relevant_sentences keywords text =
     map strip (filter (is_relevant keywords) (split_on CHR ''.'' text))"

definition aspect_step :: "string \<Rightarrow> themes \<Rightarrow> string \<times> string list \<Rightarrow> themes" where
  "aspect_step text themes ak =
     (case ak of (aspect, keywords) \<Rightarrow>
        if any_keyword keywords text
        then (case relevant_sentences keywords text of
                [] \<Rightarrow> themes
              | s # _ \<Rightarrow> append_theme themes aspect s)
        else themes)"

definition review_step :: "(string \<times> string list) list \<Rightarrow> themes \<Rightarrow> review \<Rightarrow> themes" where
  "review_step aspects themes r = foldl (aspect_step (lower (text_of r))) themes aspects"

definition extract_themes :: "review list \<Rightarrow> themes" where
  "extract_themes review_list = foldl (review_step common_aspects) [] review_list"

text \<open>Reading an aspect's example list without inserting the key.\<close>

definition themes_get :: "themes \<Rightarrow> string \<Rightarrow> string list" where
  "themes_get themes aspect = (case map_of themes aspect of None \<Rightarrow> [] | Some v \<Rightarrow> v)"

section \<open>generate_summary\<close>

text \<open>The \<open>try\<close> block that resolves the title: any exception gives \<open>Product\<close>.\<close>

definition product_title :: "analyzer \<Rightarrow> string \<Rightarrow> string" where
  "product_title self url =
     (case clean_url self url of
        Inl e \<Rightarrow> ''Product''
      | Inr da \<Rightarrow> (case title_element self url of None \<Rightarrow> ''Product'' | Some t \<Rightarrow> strip t))"

text \<open>\<open>df['rating'].mean()\<close>; \<open>None\<close> is the NaN that pandas gives for no rows.\<close>

definition avg_rating :: "review list \<Rightarrow> real option" where
  "avg_rating reviews =
     (if reviews = [] then None
      else Some (sum_list (map rating reviews) / real (length reviews)))"

definition avg_ge :: "real option \<Rightarrow> real \<Rightarrow> bool" where
  "avg_ge a c = (case a of None \<Rightarrow> False | Some x \<Rightarrow> x \<ge> c)"

definition format_avg :: "analyzer \<Rightarrow> real option \<Rightarrow> string" where
  "format_avg self a = (case a of None \<Rightarrow> ''nan'' | Some x \<Rightarrow> format_1f self x)"

definition sentiment_percent :: "string \<Rightarrow> review list \<Rightarrow> error + real" where
  "sentiment_percent label reviews =
     and_then (py_true_div (length (filter (\<lambda>r. sentiment r = label) reviews)) (length reviews))
       (\<lambda>q. Inr (q * 100))"

definition sentiment_desc :: "real \<Rightarrow> real \<Rightarrow> string" where
  "sentiment_desc positive_percent negative_percent =
     (if positive_percent \<ge> 80 then ''overwhelmingly positive reviews''
      else if positive_percent \<ge> 70 then ''largely positive reviews''
      else if positive_percent \<ge> 60 then ''generally positive reviews''
      else if negative_percent \<ge> 60 then ''generally negative reviews''
      else ''mixed reviews'')"

definition opening_sentence :: "analyzer \<Rightarrow> nat \<Rightarrow> string \<Rightarrow> string \<Rightarrow> real option \<Rightarrow> string" where
  "opening_sentence self total_reviews title desc avg =
     ''Based on a detailed analysis of '' @ str_nat total_reviews
     @ '' customer reviews, the '' @ title @ '' has received '' @ desc
     @ '' with an average rating of '' @ format_avg self avg @ '' out of 5 stars. ''"

text \<open>The loop over \<open>themes.items()\<close> that collects the points.\<close>

fun theme_points :: "themes \<Rightarrow> string list \<Rightarrow> error + string list" where
  "theme_points [] points = Inr points"
| "theme_points ((aspect, comments) # rest) points =
     (if comments \<noteq> []
      then and_then (py_max length comments)
             (\<lambda>example. theme_points rest (points @ [''the '' @ aspect @ '' ('' @ example @ '')'']))
      else theme_points rest points)"

text \<open>The positive-themes block and the negative-themes block: the same code with
  another lead-in.\<close>

definition themes_clause :: "string \<Rightarrow> themes \<Rightarrow> error + string" where
  "themes_clause lead_in themes =
     (if themes \<noteq> []
      then and_then (theme_points themes [])
        (\<lambda>points.
           if points \<noteq> []
           then and_then
                  (if length points > 1
                   then and_then (py_last points) (\<lambda>p. Inr ('', and '' @ p))
                   else py_first points)
                  (\<lambda>ending. Inr (lead_in @ join '', '' (butlast points) @ ending @ ''. ''))
           else Inr lead_in)
      else Inr [])"

definition neutral_clause :: "review list \<Rightarrow> error + string" where
  "neutral_clause neutral_reviews =
     (if neutral_reviews \<noteq> []
      then and_then (py_max (\<lambda>x. length (text_of x)) neutral_reviews)
             (\<lambda>balanced_opinion.
                Inr (''A balanced perspective from users notes that ''
                     @ take 150 (text_of balanced_opinion) @ ''... ''))
      else Inr [])"

definition closing_sentence :: "real option \<Rightarrow> real \<Rightarrow> themes \<Rightarrow> string" where
  "closing_sentence avg positive_percent positive_themes =
     (if avg_ge avg 4.0 \<and> positive_percent \<ge> 70
      then ''Given the substantial positive feedback and high average rating, this product comes highly recommended by the majority of users, particularly for those valuing ''
           @ join '' and '' (take 2 (map fst positive_themes)) @ ''.''
      else if avg_ge avg 3.5 \<and> positive_percent \<ge> 60
      then ''While most users are satisfied with their purchase, potential buyers should weigh the praised aspects against the reported limitations to ensure it meets their specific needs.''
      else ''Given the mixed feedback, potential buyers may want to explore other options or consider specific use cases before deciding.'')"

definition detailed_reviews :: "review list \<Rightarrow> review list" where
  "detailed_reviews reviews = filter (\<lambda>r. length (text_of r) > 200) reviews"

definition generate_summary :: "analyzer \<Rightarrow> review list \<Rightarrow> string \<Rightarrow> error + string" where
  "generate_summary self reviews url =
     (if reviews = [] then Inr ''No reviews found for analysis.''
      else
        let title = product_title self url;
            total_reviews = length reviews;
            avg = avg_rating reviews;
            positive_reviews = filter (\<lambda>r. sentiment r = ''Positive'') (detailed_reviews reviews);
            negative_reviews = filter (\<lambda>r. sentiment r = ''Negative'') (detailed_reviews reviews);
            neutral_reviews = filter (\<lambda>r. sentiment r = ''Neutral'') (detailed_reviews reviews)
        in and_then (sentiment_percent ''Positive'' reviews) (\<lambda>positive_percent.
           and_then (sentiment_percent ''Negative'' reviews) (\<lambda>negative_percent.
             let positive_themes = extract_themes positive_reviews;
                 negative_themes = extract_themes negative_reviews;
                 summary = opening_sentence self total_reviews title
                             (sentiment_desc positive_percent negative_percent) avg
             in and_then (themes_clause ''The standout features praised by customers include ''
                            positive_themes) (\<lambda>positive_part.
                and_then (neutral_clause neutral_reviews) (\<lambda>neutral_part.
                and_then (themes_clause ''However, some users have expressed concerns about ''
                            negative_themes) (\<lambda>negative_part.
                  Inr (summary @ positive_part @ neutral_part @ negative_part
                       @ closing_sentence avg positive_percent positive_themes)))))))"

section \<open>scrape_amazon_reviews and the endpoint\<close>

definition scrape_amazon_reviews :: "analyzer \<Rightarrow> string \<Rightarrow> error + string" where
  "scrape_amazon_reviews self url = generate_summary self (fetch_reviews_selenium self url 500) url"

text \<open>The three answers of \<open>/analyze\<close>: the summary with status 200, the message with
  status 400, the text of a caught exception with status 500.\<close>

datatype response = Summary_200 string | Error_400 string | Error_500 error

definition analyze :: "analyzer \<Rightarrow> string option \<Rightarrow> response" where
  "analyze self url_field =
     (case url_field of
        None \<Rightarrow> Error_400 ''URL is required.''
      | Some url \<Rightarrow>
          if url = [] then Error_400 ''URL is required.''
          else (case scrape_amazon_reviews self url of
                  Inl e \<Rightarrow> Error_500 e
                | Inr summary \<Rightarrow> Summary_200 summary))"

section \<open>A concrete analyzer and concrete reviews\<close>

text \<open>A small polarity scorer, a browser that loads nothing, and the rounding of a
  non-negative rating to one decimal: an analyzer on which the functions above evaluate.\<close>

definition sample_polarity :: "string \<Rightarrow> real" where
  "sample_polarity t =
     (if contains t ''great'' then 1 / 2
      else if contains t ''poor'' then - (1 / 2)
      else if contains t ''fine'' then 1 / 10
      else if contains t ''weak'' then - (1 / 10)
      else 0)"

definition sample_format :: "real \<Rightarrow> string" where
  "sample_format x =
     (let t = nat \<lfloor>x * 10 + 1 / 2\<rfloor> in str_nat (t div 10) @ ''.'' @ str_nat (t mod 10))"

definition sample_analyzer :: analyzer where
  "sample_analyzer =
     \<lparr>polarity = sample_polarity,
      urlparse_netloc = (\<lambda>url. Some ''www.amazon.com''),
      page_elements = (\<lambda>url. None),
      title_element = (\<lambda>url. None),
      format_1f = sample_format\<rparr>"

section \<open>Strings: splitting, containment, trimming\<close>

lemma and_then_Inr [simp]: "and_then (Inr x) f = f x"
  by (simp add: and_then_def)

lemma and_then_Inl [simp]: "and_then (Inl e) f = Inl e"
  by (simp add: and_then_def)

lemma split_on_not_Nil [simp]: "split_on c s \<noteq> []"
  by (induction s) (auto split: list.splits)

lemma hd_split_on: "hd (split_on c s) = takeWhile (\<lambda>y. y \<noteq> c) s"
  by (induction s) (auto split: list.splits)

lemma contains_prefix: "prefix k t \<Longrightarrow> contains t k"
  by (cases t) auto

lemma contains_iff: "contains t k \<longleftrightarrow> (\<exists>ps ss. t = ps @ k @ ss)"
proof (induction t)
  case Nil
  then show ?case by auto
next
  case (Cons x xs)
  show ?case
  proof
    assume "contains (x # xs) k"
    then consider "prefix k (x # xs)" | "contains xs k" by auto
    then show "\<exists>ps ss. x # xs = ps @ k @ ss"
    proof cases
      case 1
      then obtain ss where "x # xs = k @ ss" by (auto simp: prefix_def)
      then have "x # xs = [] @ k @ ss" by simp
      then show ?thesis by blast
    next
      case 2
      with Cons.IH obtain ps ss where "xs = ps @ k @ ss" by blast
      then have "x # xs = (x # ps) @ k @ ss" by simp
      then show ?thesis by blast
    qed
  next
    assume "\<exists>ps ss. x # xs = ps @ k @ ss"
    then obtain ps ss where eq: "x # xs = ps @ k @ ss" by blast
    show "contains (x # xs) k"
    proof (cases ps)
      case Nil
      with eq have "prefix k (x # xs)" by (simp add: prefix_def)
      then show ?thesis by simp
    next
      case (Cons p ps')
      with eq have "xs = ps' @ k @ ss" by simp
      with Cons.IH have "contains xs k" by blast
      then show ?thesis by simp
    qed
  qed
qed

lemma contains_set: "contains t k \<Longrightarrow> set k \<subseteq> set t"
  by (auto simp: contains_iff)

lemma takeWhile_keep_prefix:
  "c \<notin> set k \<Longrightarrow> takeWhile (\<lambda>y. y \<noteq> c) (k @ ss) = k @ takeWhile (\<lambda>y. y \<noteq> c) ss"
  by (induction k) auto

lemma prefix_first_segment:
  assumes "prefix k t" and "c \<notin> set k"
  shows "prefix k (hd (split_on c t))"
proof -
  from assms(1) obtain ss where "t = k @ ss" by (auto simp: prefix_def)
  with assms(2) have "takeWhile (\<lambda>y. y \<noteq> c) t = k @ takeWhile (\<lambda>y. y \<noteq> c) ss"
    by (simp add: takeWhile_keep_prefix)
  then show ?thesis by (simp add: hd_split_on)
qed

lemma contains_segment:
  "contains t k \<Longrightarrow> c \<notin> set k \<Longrightarrow> \<exists>s\<in>set (split_on c t). contains s k"
proof (induction t)
  case Nil
  then show ?case by simp
next
  case (Cons x xs)
  from Cons.prems(1) consider "prefix k (x # xs)" | "contains xs k" by auto
  then show ?case
  proof cases
    case 1
    from 1 Cons.prems(2) have "prefix k (hd (split_on c (x # xs)))"
      by (rule prefix_first_segment)
    then have "contains (hd (split_on c (x # xs))) k" by (rule contains_prefix)
    moreover have "hd (split_on c (x # xs)) \<in> set (split_on c (x # xs))"
      by (rule hd_in_set, rule split_on_not_Nil)
    ultimately show ?thesis by blast
  next
    case 2
    with Cons obtain s where s: "s \<in> set (split_on c xs)" "contains s k" by blast
    show ?thesis
    proof (cases "x = c")
      case True
      with s show ?thesis by auto
    next
      case False
      obtain s0 ss where r: "split_on c xs = s0 # ss"
        by (cases "split_on c xs") auto
      with False have sp: "split_on c (x # xs) = (x # s0) # ss" by simp
      from s r consider "s = s0" | "s \<in> set ss" by auto
      then show ?thesis
      proof cases
        case 1
        with s(2) have "contains (x # s0) k" by simp
        with sp show ?thesis by simp
      next
        case 2
        with s(2) sp show ?thesis by auto
      qed
    qed
  qed
qed

lemma strip_Nil_iff: "strip s = [] \<longleftrightarrow> (\<forall>ch\<in>set s. is_space ch)"
proof
  assume "strip s = []"
  then have "dropWhile is_space (rev (dropWhile is_space s)) = []" by (simp add: strip_def)
  then have "\<forall>ch\<in>set (rev (dropWhile is_space s)). is_space ch"
    by (simp add: dropWhile_eq_Nil_conv)
  then have a: "\<forall>ch\<in>set (dropWhile is_space s). is_space ch" by simp
  show "\<forall>ch\<in>set s. is_space ch"
  proof (cases "dropWhile is_space s")
    case Nil
    then show ?thesis using dropWhile_eq_Nil_conv [of is_space s] by blast
  next
    case (Cons y ys)
    then have "\<not> is_space y" using hd_dropWhile [of is_space s] by simp
    moreover from Cons a have "is_space y" by simp
    ultimately show ?thesis by simp
  qed
next
  assume "\<forall>ch\<in>set s. is_space ch"
  then show "strip s = []" by (auto simp: strip_def dest: set_dropWhileD)
qed

lemma contains_strip_not_Nil:
  assumes "contains s k" and "ch \<in> set k" and "\<not> is_space ch"
  shows "strip s \<noteq> []"
  using assms contains_set [OF assms(1)] by (auto simp: strip_Nil_iff)

lemma find_filter_hd:
  "find P xs = Some s \<Longrightarrow> \<exists>rest. filter P xs = s # rest"
  by (induction xs) (auto split: if_splits)

lemma find_None_filter: "find P xs = None \<Longrightarrow> filter P xs = []"
  by (induction xs) (auto split: if_splits)

section \<open>The sentiment classifier\<close>

text \<open>
  C1. For every analyzer and text, \<open>analyze_sentiment\<close> returns \<open>Positive\<close> exactly when
  the polarity is above 0.1, \<open>Negative\<close> exactly when it is below -0.1, and
  \<open>Neutral\<close> exactly in the remaining case; a scorer that answers 0.1, or -0.1, gives
  \<open>Neutral\<close>.
\<close>

theorem analyze_sentiment_thresholds:
  "(analyze_sentiment self text = ''Positive'' \<longleftrightarrow> polarity self text > 0.1) \<and>
   (analyze_sentiment self text = ''Negative'' \<longleftrightarrow> polarity self text < - 0.1) \<and>
   (analyze_sentiment self text = ''Neutral'' \<longleftrightarrow>
      \<not> polarity self text > 0.1 \<and> \<not> polarity self text < - 0.1) \<and>
   analyze_sentiment (self\<lparr>polarity := (\<lambda>t. 0.1)\<rparr>) text = ''Neutral'' \<and>
   analyze_sentiment (self\<lparr>polarity := (\<lambda>t. - 0.1)\<rparr>) text = ''Neutral''"
  by (auto simp: analyze_sentiment_def Let_def)

theorem analyze_sentiment_thresholds_witness:
  "analyze_sentiment sample_analyzer ''a great thing'' = ''Positive'' \<and>
   analyze_sentiment sample_analyzer ''a poor thing'' = ''Negative'' \<and>
   analyze_sentiment sample_analyzer ''a fine thing'' = ''Neutral'' \<and>
   analyze_sentiment sample_analyzer ''a weak thing'' = ''Neutral''"
  using analyze_sentiment_thresholds [of sample_analyzer "''a great thing''"]
    analyze_sentiment_thresholds [of sample_analyzer "''a poor thing''"]
    analyze_sentiment_thresholds [of sample_analyzer "''a fine thing''"]
    analyze_sentiment_thresholds [of sample_analyzer "''a weak thing''"]
  by (simp add: sample_analyzer_def sample_polarity_def)

section \<open>The composer on an empty corpus\<close>

text \<open>
  C2. For the empty review list, \<open>generate_summary\<close> returns exactly the fixed message
  \<open>No reviews found for analysis.\<close>, whatever the analyzer and the URL are: nothing of
  the title, the statistics, the themes or the recommendation enters the result.
\<close>

theorem generate_summary_empty:
  "generate_summary self [] url = Inr ''No reviews found for analysis.''"
  by (simp add: generate_summary_def)

section \<open>Theme extraction: one example per review and aspect\<close>

lemma themes_get_append_theme:
  "themes_get (append_theme th a x) k = (if k = a then themes_get th a @ [x] else themes_get th k)"
  by (induction th) (auto simp: themes_get_def)

lemma themes_get_aspect_step:
  "themes_get (aspect_step t th (a, kws)) k =
     themes_get th k @ (if k = a \<and> any_keyword kws t then take 1 (relevant_sentences kws t) else [])"
  by (auto simp: aspect_step_def themes_get_append_theme split: list.splits)

lemma themes_get_aspects:
  "distinct (map fst aspects) \<Longrightarrow>
   themes_get (foldl (aspect_step t) th aspects) k =
     themes_get th k @
     (case map_of aspects k of
        None \<Rightarrow> []
      | Some kws \<Rightarrow> if any_keyword kws t then take 1 (relevant_sentences kws t) else [])"
proof (induction aspects arbitrary: th)
  case Nil
  then show ?case by simp
next
  case (Cons ak aspects)
  obtain a kws where ak: "ak = (a, kws)" by (cases ak)
  from Cons.prems ak have d: "distinct (map fst aspects)" and n: "a \<notin> fst ` set aspects"
    by auto
  from n have none: "map_of aspects a = None" by (simp add: map_of_eq_None_iff)
  show ?case
    using Cons.IH [OF d, of "aspect_step t th (a, kws)"] none
    by (simp add: ak themes_get_aspect_step)
qed

lemma themes_get_reviews:
  "distinct (map fst aspects) \<Longrightarrow>
   themes_get (foldl (review_step aspects) th rs) k =
     themes_get th k @
     concat (map (\<lambda>r. case map_of aspects k of
                         None \<Rightarrow> []
                       | Some kws \<Rightarrow>
                           if any_keyword kws (lower (text_of r))
                           then take 1 (relevant_sentences kws (lower (text_of r))) else []) rs)"
proof (induction rs arbitrary: th)
  case Nil
  then show ?case by simp
next
  case (Cons r rs)
  show ?case
    using Cons.IH [OF Cons.prems, of "review_step aspects th r"]
    by (simp add: review_step_def themes_get_aspects [OF Cons.prems])
qed

lemma distinct_common_aspects: "distinct (map fst common_aspects)"
  by (simp add: common_aspects_def)

lemma keywords_plain:
  "(a, kws) \<in> set common_aspects \<Longrightarrow> k \<in> set kws \<Longrightarrow>
   CHR ''.'' \<notin> set k \<and> (\<exists>ch\<in>set k. \<not> is_space ch)"
  by (auto simp: common_aspects_def is_space_def)

lemma first_relevant_segment:
  assumes "any_keyword kws t"
    and "\<forall>k\<in>set kws. CHR ''.'' \<notin> set k \<and> (\<exists>ch\<in>set k. \<not> is_space ch)"
  shows "\<exists>seg. find (is_relevant kws) (split_on CHR ''.'' t) = Some seg \<and>
               take 1 (relevant_sentences kws t) = [strip seg]"
proof -
  from assms(1) obtain k where k: "k \<in> set kws" "contains t k"
    by (auto simp: any_keyword_def list_ex_iff)
  from assms(2) k(1) obtain ch where dot: "CHR ''.'' \<notin> set k" and ch: "ch \<in> set k" "\<not> is_space ch"
    by blast
  from contains_segment [OF k(2) dot] obtain s
    where s: "s \<in> set (split_on CHR ''.'' t)" "contains s k" by blast
  from s(2) k(1) have "any_keyword kws s" by (auto simp: any_keyword_def list_ex_iff)
  moreover from s(2) ch have "strip s \<noteq> []" by (rule contains_strip_not_Nil)
  ultimately have "find (is_relevant kws) (split_on CHR ''.'' t) \<noteq> None"
    using s(1) by (auto simp: find_None_iff is_relevant_def)
  then obtain seg
    where seg: "find (is_relevant kws) (split_on CHR ''.'' t) = Some seg"
    by blast
  from find_filter_hd [OF seg] obtain rest
    where "filter (is_relevant kws) (split_on CHR ''.'' t) = seg # rest"
    by blast
  then have "take 1 (relevant_sentences kws t) = [strip seg]"
    by (simp add: relevant_sentences_def)
  with seg show ?thesis by blast
qed

lemma extract_themes_segments:
  assumes "(aspect, keywords) \<in> set common_aspects"
  shows "\<exists>segments.
           list_all2
             (\<lambda>r seg. find (is_relevant keywords)
                         (split_on CHR ''.'' (lower (text_of r))) = Some seg)
             (filter (\<lambda>r. any_keyword keywords (lower (text_of r))) review_list) segments \<and>
           themes_get (extract_themes review_list) aspect = map strip segments"
proof -
  let ?P = "is_relevant keywords"
  let ?has = "\<lambda>r. any_keyword keywords (lower (text_of r))"
  let ?C = "\<lambda>r. if ?has r then take 1 (relevant_sentences keywords (lower (text_of r))) else []"
  from assms have m: "map_of common_aspects aspect = Some keywords"
    by (simp add: distinct_common_aspects)
  have plain: "\<forall>k\<in>set keywords. CHR ''.'' \<notin> set k \<and> (\<exists>ch\<in>set k. \<not> is_space ch)"
    using keywords_plain [OF assms] by blast
  have "themes_get [] aspect = []" by (simp add: themes_get_def)
  then have get: "themes_get (extract_themes review_list) aspect = concat (map ?C review_list)"
    by (simp add: extract_themes_def themes_get_reviews [OF distinct_common_aspects] m)
  have "\<exists>segments. list_all2 (\<lambda>r seg. find ?P (split_on CHR ''.'' (lower (text_of r))) = Some seg)
          (filter ?has review_list) segments \<and> concat (map ?C review_list) = map strip segments"
  proof (induction review_list)
    case Nil
    then show ?case by simp
  next
    case (Cons r rs)
    then obtain segs
      where segs: "list_all2 (\<lambda>r seg. find ?P (split_on CHR ''.'' (lower (text_of r))) = Some seg)
                     (filter ?has rs) segs" "concat (map ?C rs) = map strip segs"
      by blast
    show ?case
    proof (cases "?has r")
      case True
      from first_relevant_segment [OF True plain] obtain seg
        where seg: "find ?P (split_on CHR ''.'' (lower (text_of r))) = Some seg"
          "take 1 (relevant_sentences keywords (lower (text_of r))) = [strip seg]"
        by blast
      from True seg segs
      have "list_all2 (\<lambda>r seg. find ?P (split_on CHR ''.'' (lower (text_of r))) = Some seg)
              (filter ?has (r # rs)) (seg # segs) \<and>
            concat (map ?C (r # rs)) = map strip (seg # segs)"
        by simp
      then show ?thesis by blast
    next
      case False
      with segs
      have "list_all2 (\<lambda>r seg. find ?P (split_on CHR ''.'' (lower (text_of r))) = Some seg)
              (filter ?has (r # rs)) segs \<and>
            concat (map ?C (r # rs)) = map strip segs"
        by simp
      then show ?thesis by blast
    qed
  qed
  with get show ?thesis by simp
qed

text \<open>
  C5, as the code has it. For every review list and each of the eight aspects, the aspect's
  example list holds one entry per review whose lower-cased text contains a keyword of the
  aspect, in the order of the reviews: the first segment of the lower-cased text, split at
  the period, that contains a keyword of the aspect and is not empty once trimmed, with its
  leading and trailing whitespace removed. The statement holds for each aspect on its
  own, so one review adds to the list of every aspect it mentions.
\<close>

theorem extract_themes_first_segment_trimmed:
  assumes "(aspect, keywords) \<in> set common_aspects"
  shows "\<exists>segments.
           list_all2
             (\<lambda>r seg. find (is_relevant keywords)
                         (split_on CHR ''.'' (lower (text_of r))) = Some seg)
             (filter (\<lambda>r. any_keyword keywords (lower (text_of r))) review_list) segments \<and>
           themes_get (extract_themes review_list) aspect = map strip segments"
  using assms by (rule extract_themes_segments)

theorem extract_themes_first_segment_trimmed_witness:
  "(''quality'', [''quality'', ''build'', ''material'', ''durability'', ''construction''])
     \<in> set common_aspects \<and>
   (''value'', [''price'', ''value'', ''worth'', ''cost'', ''expensive'', ''cheap''])
     \<in> set common_aspects \<and>
   (\<exists>segments.
      list_all2
        (\<lambda>r seg. find (is_relevant [''quality'', ''build'', ''material'', ''durability'',
                                      ''construction''])
                    (split_on CHR ''.'' (lower (text_of r))) = Some seg)
        (filter (\<lambda>r. any_keyword [''quality'', ''build'', ''material'', ''durability'',
                                    ''construction''] (lower (text_of r)))
           [\<lparr>text_of = ''Great quality. Fair price.'', rating = 5, sentiment = ''Positive''\<rparr>])
        segments \<and>
      themes_get
        (extract_themes
           [\<lparr>text_of = ''Great quality. Fair price.'', rating = 5, sentiment = ''Positive''\<rparr>])
        ''quality'' = map strip segments) \<and>
   (\<exists>segments.
      list_all2
        (\<lambda>r seg. find (is_relevant [''price'', ''value'', ''worth'', ''cost'', ''expensive'',
                                      ''cheap''])
                    (split_on CHR ''.'' (lower (text_of r))) = Some seg)
        (filter (\<lambda>r. any_keyword [''price'', ''value'', ''worth'', ''cost'', ''expensive'',
                                    ''cheap''] (lower (text_of r)))
           [\<lparr>text_of = ''Great quality. Fair price.'', rating = 5, sentiment = ''Positive''\<rparr>])
        segments \<and>
      themes_get
        (extract_themes
           [\<lparr>text_of = ''Great quality. Fair price.'', rating = 5, sentiment = ''Positive''\<rparr>])
        ''value'' = map strip segments)"
proof -
  have q: "(''quality'', [''quality'', ''build'', ''material'', ''durability'', ''construction''])
             \<in> set common_aspects"
    by (simp add: common_aspects_def)
  have v: "(''value'', [''price'', ''value'', ''worth'', ''cost'', ''expensive'', ''cheap''])
             \<in> set common_aspects"
    by (simp add: common_aspects_def)
  show ?thesis
    using q v extract_themes_first_segment_trimmed [OF q]
      extract_themes_first_segment_trimmed [OF v]
    by blast
qed

text \<open>
  C5, as it is stated, has the segment itself appended. For the one review
  \<open>Good. Great quality here.\<close> the first segment that mentions the aspect \<open>quality\<close> is
  \<open> great quality here\<close>, with its leading blank, and the example list holds
  \<open>great quality here\<close>: the segment is not in the list.
\<close>

theorem extract_themes_untrimmed_counterexample:
  "find (is_relevant [''quality'', ''build'', ''material'', ''durability'', ''construction''])
     (split_on CHR ''.'' (lower ''Good. Great quality here.'')) = Some '' great quality here'' \<and>
   themes_get
     (extract_themes
        [\<lparr>text_of = ''Good. Great quality here.'', rating = 5, sentiment = ''Positive''\<rparr>])
     ''quality'' = [''great quality here''] \<and>
   '' great quality here'' \<notin>
     set (themes_get
            (extract_themes
               [\<lparr>text_of = ''Good. Great quality here.'', rating = 5, sentiment = ''Positive''\<rparr>])
            ''quality'')"
proof -
  have seg: "find (is_relevant [''quality'', ''build'', ''material'', ''durability'',
                                ''construction''])
               (split_on CHR ''.'' (lower ''Good. Great quality here.''))
             = Some '' great quality here''"
    by (simp add: lower_def lower_char_def char_of_eq_iff is_relevant_def any_keyword_def
        strip_def is_space_def)
  have ex: "extract_themes
              [\<lparr>text_of = ''Good. Great quality here.'', rating = 5, sentiment = ''Positive''\<rparr>]
            = [(''quality'', [''great quality here''])]"
    by (simp add: extract_themes_def review_step_def aspect_step_def common_aspects_def
        relevant_sentences_def is_relevant_def lower_def lower_char_def char_of_eq_iff
        any_keyword_def strip_def is_space_def)
  show ?thesis
    unfolding ex using seg by (simp add: themes_get_def)
qed

end
